theory Spec2Isabelle
  imports Complex_Main "HOL-Library.Word" "HOL-Library.Product_Lexorder"
begin

unbundle bit_operations_syntax

section \<open>University records: the data model of annotation.ts\<close>

text \<open>
  The program is a set of TypeScript classes whose instances refer to each other.
  Objects are compared by identity (\<^verbatim>\<open>===\<close>, \<^verbatim>\<open>includes\<close>), so every field or
  array element that holds an object is modelled by the address of that object, and
  the objects themselves live in a store that maps addresses to field values. Equality
  of addresses is identity of objects; two addresses may hold equal field values.

  A method is a function of the receiver's fields (\<^verbatim>\<open>this\<close>) that returns the
  receiver's fields after the call, since no method of the program writes to any object
  but its receiver. A method that can throw returns a pair: \<open>Inl\<close> of the error or
  \<open>Inr\<close> of the returned value, and the receiver as the throw or the return leaves it.

  Numbers. A TypeScript \<^verbatim>\<open>number\<close> is a double. The numbers a caller supplies or that
  the program computes from them (credits, the total of credits, the grade point
  average, the group average) are values of the type \<open>number\<close> below: a finite double
  is the rational it denotes, next to the two infinities and NaN, and \<^verbatim>\<open>+\<close> and \<^verbatim>\<open>/\<close>
  round the exact result to the nearest double, ties to even, as the language does.
  The two zeros are one value. The numbers the program makes itself and that hold
  integers only are modelled by \<^typ>\<open>int\<close>: array lengths and indices, the three
  calendar fields of a date, and the identifier counter \<^verbatim>\<open>Person.nextId\<close>, whose
  increment is the double addition of 1 with its rounding written out.
\<close>

subsection \<open>Enumerations and constants\<close>

definition Roles_student :: string where
  "Roles_student = ''student''"

definition Roles_teacher :: string where
  "Roles_teacher = ''teacher''"

definition AcademicStatus_active :: string where
  "AcademicStatus_active = ''active''"

definition AcademicStatus_academicLeave :: string where
  "AcademicStatus_academicLeave = ''academicLeave''"

definition AcademicStatus_graduated :: string where
  "AcademicStatus_graduated = ''graduated''"

definition AcademicStatus_expelled :: string where
  "AcademicStatus_expelled = ''expelled''"

subsection \<open>Errors\<close>

text \<open>
  \<^verbatim>\<open>UniversityError\<close> extends \<^verbatim>\<open>Error\<close> and differs from it by its name; both carry
  the message.
\<close>

datatype error = Error string | UniversityError string

subsection \<open>Numbers: doubles\<close>

datatype number = Finite rat | PosInfinity | NegInfinity | NaN

text \<open>
  Rounding to a double. \<open>bit_length n\<close> is the number of binary digits of a positive
  integer, so \<open>floor_log2 x\<close> is the exponent \<open>e\<close> with \<open>2^e \<le> x < 2^(e+1)\<close> of a
  positive rational. A double near \<open>x\<close> is a multiple of \<open>double_quantum x\<close>: 52 binary
  places below the exponent of \<open>x\<close>, and never below the exponent -1022 of the
  subnormal numbers. \<open>double_round\<close> takes the nearest multiple, the even one on a tie,
  and \<open>round_double\<close> turns a result of magnitude \<open>2^1024\<close> or more into an infinity.
\<close>

function bit_length :: "int \<Rightarrow> int" where
  "bit_length n = (if n \<le> 0 then 0 else 1 + bit_length (n div 2))"
  by pat_completeness auto
termination
  by (relation "measure nat") auto

definition floor_log2 :: "rat \<Rightarrow> int" where
  "floor_log2 x =
     (if 1 \<le> x then bit_length \<lfloor>x\<rfloor> - 1 else - bit_length (\<lceil>1 / x\<rceil> - 1))"

definition round_half_even :: "rat \<Rightarrow> int" where
  "round_half_even x =
     (let f = \<lfloor>x\<rfloor>; d = x - of_int f
      in if d < 1 / 2 then f else if 1 / 2 < d then f + 1 else if even f then f else f + 1)"

definition double_quantum :: "rat \<Rightarrow> rat" where
  "double_quantum x = 2 powi (max (floor_log2 \<bar>x\<bar>) (- 1022) - 52)"

definition double_round :: "rat \<Rightarrow> rat" where
  "double_round x =
     (if x = 0 then 0
      else of_int (round_half_even (x / double_quantum x)) * double_quantum x)"

definition round_double :: "rat \<Rightarrow> number" where
  "round_double x =
     (let r = double_round x
      in if 2 ^ 1024 \<le> r then PosInfinity
         else if r \<le> - (2 ^ 1024) then NegInfinity
         else Finite r)"

text \<open>Addition, as \<^verbatim>\<open>+\<close> on two numbers.\<close>

fun js_add :: "number \<Rightarrow> number \<Rightarrow> number" where
  "js_add NaN y = NaN"
| "js_add x NaN = NaN"
| "js_add PosInfinity NegInfinity = NaN"
| "js_add NegInfinity PosInfinity = NaN"
| "js_add PosInfinity y = PosInfinity"
| "js_add x PosInfinity = PosInfinity"
| "js_add NegInfinity y = NegInfinity"
| "js_add x NegInfinity = NegInfinity"
| "js_add (Finite a) (Finite b) = round_double (a + b)"

text \<open>
  Division, as \<^verbatim>\<open>/\<close> on two numbers; a zero divisor is the positive zero (the only
  divisor of the program is an array length).
\<close>

fun js_div :: "number \<Rightarrow> number \<Rightarrow> number" where
  "js_div NaN y = NaN"
| "js_div x NaN = NaN"
| "js_div (Finite a) (Finite b) =
     (if b = 0 then (if a = 0 then NaN else if 0 < a then PosInfinity else NegInfinity)
      else round_double (a / b))"
| "js_div (Finite a) y = Finite 0"
| "js_div PosInfinity (Finite b) = (if 0 \<le> b then PosInfinity else NegInfinity)"
| "js_div NegInfinity (Finite b) = (if 0 \<le> b then NegInfinity else PosInfinity)"
| "js_div x y = NaN"

text \<open>
  \<^verbatim>\<open>++\<close> on a number that holds an integer: the value after the increment, which is the
  double nearest to the value plus 1 and is an integer again.
\<close>

definition js_increment :: "int \<Rightarrow> int" where
  "js_increment n = \<lfloor>double_round (of_int n + 1)\<rfloor>"

subsection \<open>Arrays\<close>

text \<open>
  An array is a list. \<^verbatim>\<open>push\<close> appends, \<^verbatim>\<open>includes\<close> is membership, \<^verbatim>\<open>filter\<close> and
  \<^verbatim>\<open>find\<close> are \<^const>\<open>filter\<close> and \<^const>\<open>List.find\<close> (\<open>None\<close> for \<^verbatim>\<open>undefined\<close>),
  \<^verbatim>\<open>reduce\<close> with an initial value is \<^const>\<open>foldl\<close>.
\<close>

text \<open>\<^verbatim>\<open>findIndex\<close>: the index of the first element that satisfies the predicate, or -1.\<close>

fun findIndexFrom :: "('a \<Rightarrow> bool) \<Rightarrow> int \<Rightarrow> 'a list \<Rightarrow> int" where
  "findIndexFrom P k [] = - 1"
| "findIndexFrom P k (x # xs) = (if P x then k else findIndexFrom P (k + 1) xs)"

definition findIndex :: "('a \<Rightarrow> bool) \<Rightarrow> 'a list \<Rightarrow> int" where
  "findIndex P xs = findIndexFrom P 0 xs"

text \<open>
  \<^verbatim>\<open>splice(start, deleteCount)\<close>: the array after the call. A negative start counts
  from the end, and both arguments are clamped to the array.
\<close>

definition splice :: "int \<Rightarrow> int \<Rightarrow> 'a list \<Rightarrow> 'a list" where
  "splice start deleteCount xs =
     (let len = int (length xs);
          from = (if start < 0 then max (len + start) 0 else min start len);
          cnt = min (max deleteCount 0) (len - from)
      in take (nat from) xs @ drop (nat (from + cnt)) xs)"

text \<open>
  \<^verbatim>\<open>~\<close> on a number converts it to a signed 32-bit integer and complements the bits:
  \<open>bitnot32\<close>. The program applies it to the result of \<^verbatim>\<open>findIndex\<close> only, which is
  -1 or an index of an array, and tests the complement for zero (\<^verbatim>\<open>!~index\<close>). An
  array has fewer than \<open>2^32\<close> elements, and on -1 and on every index below \<open>2^32 - 1\<close>
  the test gives what it gives for the complement \<^term>\<open>NOT i\<close> of the integer itself
  (lemma \<open>bitnot32_index\<close> below). The model of \<^verbatim>\<open>removeStudentById\<close>, whose lists
  have any length, tests \<^term>\<open>NOT i\<close>.
\<close>

definition bitnot32 :: "int \<Rightarrow> int" where
  "bitnot32 i = sint (NOT (word_of_int i :: 32 word))"

subsection \<open>Objects\<close>

type_synonym addr = nat

record Date =
  getFullYear :: int
  getMonth :: int
  getDate :: int

record ContactInfo =
  email :: string
  phone :: string

record PersonInfo =
  firstName :: string
  lastName :: string
  birthDay :: Date
  gender :: string

record FullPersonInfo = PersonInfo +
  email :: string
  phone :: string

record AcademicPerformance =
  totalCredits :: number
  gpa :: number

record Course =
  name :: string
  credits :: number
  discipline :: string

record Person =
  firstName :: string
  lastName :: string
  birthDay :: Date
  id' :: int
  gender :: string
  contactInfo :: ContactInfo
  role :: string

record Teacher = Person +
  specializations :: "string list"
  courses :: "addr list"

record Student = Person +
  academicPerformance :: AcademicPerformance
  enrolledCourses :: "addr list"
  status :: string

record Group =
  name :: string
  course :: addr
  teacher :: addr
  students :: "addr list"

record University =
  name :: string
  courses :: "addr list"
  groups :: "addr list"
  people :: "addr list"

text \<open>The union type \<^verbatim>\<open>People = Person | Teacher | Student\<close>.\<close>

datatype People = IsPerson Person | IsTeacher Teacher | IsStudent Student

fun People_role :: "People \<Rightarrow> string" where
  "People_role (IsPerson p) = role p"
| "People_role (IsTeacher t) = role t"
| "People_role (IsStudent s) = role s"

fun People_id :: "People \<Rightarrow> int" where
  "People_id (IsPerson p) = id' p"
| "People_id (IsTeacher t) = id' t"
| "People_id (IsStudent s) = id' s"

text \<open>
  The store, one typed view for each class whose instances the program dereferences
  (the static types say which class an address in an array belongs to).
\<close>

record heap =
  courseAt :: "addr \<Rightarrow> Course"
  groupAt :: "addr \<Rightarrow> Group"
  studentAt :: "addr \<Rightarrow> Student"
  peopleAt :: "addr \<Rightarrow> People"

subsection \<open>Person, Teacher, Student\<close>

text \<open>
  The static field \<^verbatim>\<open>Person.nextId\<close> is the one piece of state shared by all
  constructions: a constructor takes its value and returns the object with the value
  after the call (\<^verbatim>\<open>this.id = Person.nextId++\<close>). Its initial value is 1.
\<close>

definition Person_nextId_initial :: int where
  "Person_nextId_initial = 1"

definition Person_new :: "FullPersonInfo \<Rightarrow> string \<Rightarrow> int \<Rightarrow> Person \<times> int" where
  "Person_new info role0 nextId =
     (\<lparr>firstName = PersonInfo.firstName info,
       lastName = PersonInfo.lastName info,
       birthDay = PersonInfo.birthDay info,
       id' = nextId,
       gender = PersonInfo.gender info,
       contactInfo = \<lparr>ContactInfo.email = FullPersonInfo.email info,
                      ContactInfo.phone = FullPersonInfo.phone info\<rparr>,
       role = role0\<rparr>,
      js_increment nextId)"

definition Teacher_new :: "FullPersonInfo \<Rightarrow> string list \<Rightarrow> int \<Rightarrow> Teacher \<times> int" where
  "Teacher_new info specs nextId =
     (case Person_new info Roles_teacher nextId of
        (p, nextId1) \<Rightarrow> (Person.extend p (Teacher.fields specs []), nextId1))"

definition Student_new :: "FullPersonInfo \<Rightarrow> int \<Rightarrow> Student \<times> int" where
  "Student_new info nextId =
     (case Person_new info Roles_student nextId of
        (p, nextId1) \<Rightarrow>
          (Person.extend p
             (Student.fields \<lparr>totalCredits = Finite 0, gpa = Finite 0\<rparr> []
                AcademicStatus_active),
           nextId1))"

text \<open>
  The getter \<^verbatim>\<open>age\<close> reads the clock (\<^verbatim>\<open>new Date()\<close>); the date it reads is the
  argument \<open>today\<close>. A \<^verbatim>\<open>Date\<close> is modelled by the three calendar fields its getters
  return. Teacher and Student inherit the getter, so it takes any extension of Person.
\<close>

definition age :: "Date \<Rightarrow> 'a Person_scheme \<Rightarrow> int" where
  "age today this =
     (let age0 = getFullYear today - getFullYear (Person.birthDay this);
          monthDiff = getMonth today - getMonth (Person.birthDay this)
      in if monthDiff < 0 \<or> (monthDiff = 0 \<and> getDate today < getDate (Person.birthDay this))
         then age0 - 1 else age0)"

definition enrollCourse :: "heap \<Rightarrow> addr \<Rightarrow> Student \<Rightarrow> (error + unit) \<times> Student" where
  "enrollCourse h course0 this =
     (if status this \<noteq> AcademicStatus_active
      then (Inl (UniversityError ''Cannot enroll: Student is not in active status''), this)
      else
        (let this1 = this\<lparr>enrolledCourses := enrolledCourses this @ [course0]\<rparr>;
             this2 = this1\<lparr>academicPerformance :=
                       (academicPerformance this1)\<lparr>totalCredits :=
                          js_add (totalCredits (academicPerformance this1))
                            (credits (courseAt h course0))\<rparr>\<rparr>
         in (Inr (), this2)))"

definition updateAcademicStatus :: "string \<Rightarrow> Student \<Rightarrow> Student" where
  "updateAcademicStatus newStatus this = this\<lparr>status := newStatus\<rparr>"

definition getAverageScore :: "Student \<Rightarrow> number" where
  "getAverageScore this = gpa (academicPerformance this)"

subsection \<open>Group\<close>

definition Group_new :: "string \<Rightarrow> addr \<Rightarrow> addr \<Rightarrow> Group" where
  "Group_new name0 course0 teacher0 =
     \<lparr>Group.name = name0, course = course0, teacher = teacher0, students = []\<rparr>"

definition addStudent :: "addr \<Rightarrow> Group \<Rightarrow> (error + unit) \<times> Group" where
  "addStudent student this =
     (if student \<in> set (students this)
      then (Inl (UniversityError ''Student is already in the group''), this)
      else (Inr (), this\<lparr>students := students this @ [student]\<rparr>))"

definition removeStudentById :: "heap \<Rightarrow> int \<Rightarrow> Group \<Rightarrow> (error + unit) \<times> Group" where
  "removeStudentById h id0 this =
     (let index = findIndex (\<lambda>student. id' (studentAt h student) = id0) (students this)
      in if NOT index = 0
         then (Inl (UniversityError ''Student not found in group''), this)
         else (Inr (), this\<lparr>students := splice index 1 (students this)\<rparr>))"

definition getAverageGroupScore :: "heap \<Rightarrow> Group \<Rightarrow> number" where
  "getAverageGroupScore h this =
     (if length (students this) \<noteq> 0 then Finite 0
      else
        (let totalScore =
               foldl (\<lambda>sum student. js_add sum (getAverageScore (studentAt h student)))
                 (Finite 0) (students this)
         in js_div totalScore (Finite (of_nat (length (students this))))))"

subsection \<open>University\<close>

definition addCourse :: "addr \<Rightarrow> University \<Rightarrow> University" where
  "addCourse course0 this = this\<lparr>University.courses := University.courses this @ [course0]\<rparr>"

definition addGroup :: "addr \<Rightarrow> University \<Rightarrow> University" where
  "addGroup group0 this = this\<lparr>groups := groups this @ [group0]\<rparr>"

definition addPerson :: "addr \<Rightarrow> University \<Rightarrow> University" where
  "addPerson person this = this\<lparr>people := people this @ [person]\<rparr>"

definition findGroupByCourse :: "heap \<Rightarrow> University \<Rightarrow> addr \<Rightarrow> addr option" where
  "findGroupByCourse h this course0 =
     List.find (\<lambda>group0. course (groupAt h group0) = course0) (groups this)"

definition assertNeverRole :: "string \<Rightarrow> error + 'a" where
  "assertNeverRole role0 = Inl (Error (''Unhandled role: '' @ role0))"

definition getAllPeopleByRole :: "heap \<Rightarrow> University \<Rightarrow> string \<Rightarrow> error + addr list" where
  "getAllPeopleByRole h this role0 =
     (if role0 = Roles_student
      then Inr (filter (\<lambda>person. People_role (peopleAt h person) = Roles_student) (people this))
      else if role0 = Roles_teacher
      then Inr (filter (\<lambda>person. People_role (peopleAt h person) = Roles_teacher) (people this))
      else assertNeverRole role0)"

subsection \<open>Sequences of constructions\<close>

text \<open>
  A run of the program constructs objects one after the other. A construction is one
  \<^verbatim>\<open>new\<close> expression with its arguments; \<open>constructAll\<close> performs a list of them from
  left to right, threading \<^verbatim>\<open>Person.nextId\<close>, and returns the objects in the order of
  their construction.
\<close>

datatype construction =
    NewPerson FullPersonInfo string
  | NewTeacher FullPersonInfo "string list"
  | NewStudent FullPersonInfo

fun construct :: "construction \<Rightarrow> int \<Rightarrow> People \<times> int" where
  "construct (NewPerson info role0) nextId =
     (case Person_new info role0 nextId of (p, n) \<Rightarrow> (IsPerson p, n))"
| "construct (NewTeacher info specs) nextId =
     (case Teacher_new info specs nextId of (t, n) \<Rightarrow> (IsTeacher t, n))"
| "construct (NewStudent info) nextId =
     (case Student_new info nextId of (s, n) \<Rightarrow> (IsStudent s, n))"

fun constructAll :: "construction list \<Rightarrow> int \<Rightarrow> People list \<times> int" where
  "constructAll [] nextId = ([], nextId)"
| "constructAll (c # cs) nextId =
     (case construct c nextId of
        (p, n1) \<Rightarrow> (case constructAll cs n1 of (ps, n2) \<Rightarrow> (p # ps, n2)))"

subsection \<open>Example objects\<close>

text \<open>
  Concrete objects on which the theorems below are instantiated: a person born on
  15 June 2000 (months count from 0), and a store in which every course has 5 credits,
  the group at address \<open>a\<close> teaches the course at address \<open>a div 2\<close>, the student at
  address \<open>a\<close> has the identifier \<open>a\<close>, and the people at even addresses are students,
  the others teachers.
\<close>

definition exampleInfo :: FullPersonInfo where
  "exampleInfo =
     \<lparr>PersonInfo.firstName = ''Ann'', lastName = ''Lee'',
      birthDay = \<lparr>getFullYear = 2000, getMonth = 5, getDate = 15\<rparr>,
      gender = ''female'',
      email = ''info@university.com'', phone = ''+380955555555''\<rparr>"

definition exampleHeap :: heap where
  "exampleHeap =
     \<lparr>courseAt =
        (\<lambda>a. \<lparr>Course.name = ''Algebra'', credits = Finite 5, discipline = ''Mathematics''\<rparr>),
      groupAt = (\<lambda>a. Group_new ''Section'' (a div 2) 0),
      studentAt = (\<lambda>a. fst (Student_new exampleInfo (int a))),
      peopleAt = (\<lambda>a. if even a then IsStudent (fst (Student_new exampleInfo (int a)))
                     else IsTeacher (fst (Teacher_new exampleInfo [] (int a))))\<rparr>"

text \<open>
  A store in which the course at address 0 has \<open>2^53\<close> credits and every other course
  has 1 credit.
\<close>

definition largeCreditsHeap :: heap where
  "largeCreditsHeap =
     exampleHeap\<lparr>courseAt :=
       (\<lambda>a. \<lparr>Course.name = ''Thesis'',
              credits = (if a = 0 then Finite (2 ^ 53) else Finite 1),
              discipline = ''Mathematics''\<rparr>)\<rparr>"

definition exampleUniversity :: University where
  "exampleUniversity =
     \<lparr>University.name = ''University'', courses = [1, 2, 3], groups = [2, 4, 5, 6],
      people = [1, 2, 3, 4]\<rparr>"

section \<open>Properties\<close>

subsection \<open>Rounding to a double\<close>

declare bit_length.simps [simp del]

lemma bit_length_bounds:
  "0 < n \<Longrightarrow>
   1 \<le> bit_length n \<and> 2 ^ nat (bit_length n - 1) \<le> n \<and> n < 2 ^ nat (bit_length n)"
proof (induction n rule: bit_length.induct)
  case (1 n)
  show ?case
  proof (cases "n = 1")
    case True
    have "bit_length 1 = 1" by (simp add: bit_length.simps [of 1] bit_length.simps [of 0])
    with True show ?thesis by simp
  next
    case False
    with "1.prems" have h: "0 < n div 2" by simp
    from "1.prems" have nn: "\<not> n \<le> 0" by simp
    from "1.IH" [OF nn h]
    have ih: "1 \<le> bit_length (n div 2)"
      "2 ^ nat (bit_length (n div 2) - 1) \<le> n div 2"
      "n div 2 < 2 ^ nat (bit_length (n div 2))" by simp_all
    have bl: "bit_length n = 1 + bit_length (n div 2)"
      using nn by (simp add: bit_length.simps [of n])
    have e1: "nat (bit_length n - 1) = Suc (nat (bit_length (n div 2) - 1))"
      using ih(1) bl by simp
    have e2: "nat (bit_length n) = Suc (nat (bit_length (n div 2)))"
      using ih(1) bl by simp
    have "2 * 2 ^ nat (bit_length (n div 2) - 1) \<le> n" using ih(2) by linarith
    moreover have "n < 2 * 2 ^ nat (bit_length (n div 2))" using ih(3) by linarith
    moreover have "1 \<le> bit_length n" using ih(1) bl by simp
    ultimately show ?thesis unfolding e1 e2 by simp
  qed
qed

lemma round_half_even_of_int: "round_half_even (of_int m) = m"
  by (simp add: round_half_even_def)

lemma double_round_on_grid:
  assumes "x = of_int m * double_quantum x"
  shows "double_round x = x"
proof (cases "x = 0")
  case True
  then show ?thesis by (simp add: double_round_def)
next
  case False
  have q: "double_quantum x \<noteq> 0" by (simp add: double_quantum_def)
  from assms q have "x / double_quantum x = of_int m"
    by (metis nonzero_mult_div_cancel_right)
  then show ?thesis using False assms by (simp add: double_round_def round_half_even_of_int)
qed

lemma double_round_of_int:
  assumes "\<bar>k\<bar> \<le> 2 ^ 53"
  shows "double_round (of_int k) = of_int k"
proof (cases "k = 0")
  case True
  then show ?thesis by (simp add: double_round_def)
next
  case False
  define e where "e = bit_length \<bar>k\<bar> - 1"
  have pos: "0 < \<bar>k\<bar>" using False by simp
  from bit_length_bounds [OF pos]
  have b: "0 \<le> e" "2 ^ nat e \<le> \<bar>k\<bar>" by (simp_all add: e_def)
  have "(2::int) ^ nat e \<le> 2 ^ 53" using b(2) assms by linarith
  then have "nat e \<le> 53" by (rule power_le_imp_le_exp [rotated]) simp
  then have e53: "e \<le> 53" by simp
  have "1 \<le> \<bar>k\<bar>" using pos by simp
  then have "(of_int 1 :: rat) \<le> of_int \<bar>k\<bar>" by (simp only: of_int_le_iff)
  then have one: "(1::rat) \<le> \<bar>of_int k\<bar>" by simp
  have fl: "floor_log2 \<bar>of_int k :: rat\<bar> = e"
    using one by (simp add: floor_log2_def e_def flip: of_int_abs)
  have q: "double_quantum (of_int k) = 2 powi (e - 52)"
    using b(1) by (simp add: double_quantum_def fl)
  show ?thesis
  proof (cases "e \<le> 52")
    case True
    have "e - 52 = - int (nat (52 - e))" using True by simp
    then have "(2::rat) powi (e - 52) = inverse (2 powi int (nat (52 - e)))"
      by (simp only: power_int_minus)
    then have p: "(2::rat) powi (e - 52) = inverse (2 ^ nat (52 - e))"
      by (simp only: power_int_of_nat)
    have "(of_int k :: rat) = of_int (k * 2 ^ nat (52 - e)) * double_quantum (of_int k)"
      unfolding q p by simp
    then show ?thesis by (rule double_round_on_grid)
  next
    case False
    with e53 have e: "e = 53" by simp
    with b(2) assms have "\<bar>k\<bar> = 2 ^ 53" by simp
    then have "k = 2 ^ 53 \<or> k = - (2 ^ 53)" by (auto simp: abs_if split: if_splits)
    then have "k = 2 * (k div 2)" by auto
    then have h: "(of_int k :: rat) = of_int (k div 2) * 2"
      by (metis of_int_mult of_int_numeral mult.commute)
    have "double_quantum (of_int k) = 2" by (simp add: q e)
    with h have "(of_int k :: rat) = of_int (k div 2) * double_quantum (of_int k)"
      by (simp only:)
    then show ?thesis by (rule double_round_on_grid)
  qed
qed

lemma round_double_of_int:
  assumes "\<bar>k\<bar> \<le> 2 ^ 53"
  shows "round_double (of_int k) = Finite (of_int k)"
proof -
  have "\<bar>of_int k :: rat\<bar> \<le> 2 ^ 53"
    using assms by (metis of_int_abs of_int_le_iff of_int_numeral of_int_power)
  moreover have "(2::rat) ^ 53 < 2 ^ 1024" by simp
  ultimately have "\<not> 2 ^ 1024 \<le> (of_int k :: rat)" "\<not> (of_int k :: rat) \<le> - (2 ^ 1024)"
    by linarith+
  then show ?thesis
    by (simp add: round_double_def double_round_of_int [OF assms] Let_def)
qed

lemma js_add_of_int:
  assumes "\<bar>a + b\<bar> \<le> 2 ^ 53"
  shows "js_add (Finite (of_int a)) (Finite (of_int b)) = Finite (of_int (a + b))"
  using round_double_of_int [OF assms] by simp

lemma js_add_0_5: "js_add (Finite 0) (Finite 5) = Finite 5"
  using js_add_of_int [of 0 5] by simp

lemma js_add_5_5: "js_add (Finite 5) (Finite 5) = Finite 10"
  using js_add_of_int [of 5 5] by simp

lemma js_add_0_large: "js_add (Finite 0) (Finite (2 ^ 53)) = Finite (2 ^ 53)"
  using js_add_of_int [of 0 "2 ^ 53"] by simp

lemma bit_length_above_limit: "bit_length (2 ^ 53 + 1) = 54"
  by (simp add: bit_length.simps)

lemma double_quantum_above_limit: "double_quantum (2 ^ 53 + 1) = 2"
proof -
  have "\<lfloor>2 ^ 53 + 1 :: rat\<rfloor> = 2 ^ 53 + 1" by simp
  then have "floor_log2 (2 ^ 53 + 1) = 53"
    using bit_length_above_limit by (simp add: floor_log2_def)
  then show ?thesis by (simp add: double_quantum_def)
qed

lemma round_half_even_tie: "round_half_even ((2 ^ 53 + 1) / 2) = 2 ^ 52"
proof -
  have f: "\<lfloor>(2 ^ 53 + 1) / 2 :: rat\<rfloor> = 2 ^ 52"
    by (rule floor_unique) simp_all
  show ?thesis unfolding round_half_even_def Let_def f by simp
qed

lemma double_round_above_limit: "double_round (2 ^ 53 + 1) = 2 ^ 53"
  unfolding double_round_def double_quantum_above_limit round_half_even_tie by simp

lemma js_add_large_1: "js_add (Finite (2 ^ 53)) (Finite 1) = Finite (2 ^ 53)"
  using double_round_above_limit by (simp add: round_double_def)

lemma js_increment_exact:
  assumes "0 \<le> n" and "n < 2 ^ 53"
  shows "js_increment n = n + 1"
proof -
  have "\<bar>n + 1\<bar> \<le> 2 ^ 53" using assms by simp
  then have "double_round (of_int (n + 1)) = of_int (n + 1)" by (rule double_round_of_int)
  then show ?thesis by (simp add: js_increment_def)
qed

lemma js_increment_limit: "js_increment (2 ^ 53) = 2 ^ 53"
  using double_round_above_limit by (simp add: js_increment_def)

lemma js_increment_min:
  assumes "0 \<le> n" and "n \<le> 2 ^ 53"
  shows "js_increment n = min (n + 1) (2 ^ 53)"
proof (cases "n = 2 ^ 53")
  case True
  then show ?thesis using js_increment_limit by simp
next
  case False
  with assms have "n < 2 ^ 53" by simp
  with assms(1) have "js_increment n = n + 1" by (rule js_increment_exact)
  with \<open>n < 2 ^ 53\<close> show ?thesis by simp
qed


subsection \<open>Arrays and the complement\<close>

lemma word_of_int_minus_one:
  assumes "- 1 \<le> i" and "i < 2 ^ 32 - 1"
  shows "((word_of_int i :: 32 word) = - 1) = (i = - 1)"
proof
  assume "(word_of_int i :: 32 word) = - 1"
  then have "(word_of_int i :: 32 word) = word_of_int (- 1)" by simp
  then have "take_bit 32 i = take_bit 32 (- 1 :: int)"
    by (simp only: word_of_int_eq_iff) simp
  then have m: "i mod 2 ^ 32 = (- 1) mod 2 ^ 32" by (simp only: take_bit_eq_mod)
  show "i = - 1"
  proof (rule ccontr)
    assume "i \<noteq> - 1"
    with assms have "0 \<le> i" and "i < 2 ^ 32" by simp_all
    then have "i mod 2 ^ 32 = i" by simp
    with m assms show False by simp
  qed
next
  assume "i = - 1"
  then show "(word_of_int i :: 32 word) = - 1" by simp
qed

lemma bitnot32_index:
  assumes "- 1 \<le> i" and "i < 2 ^ 32 - 1"
  shows "(bitnot32 i = 0) = (NOT i = 0)"
proof -
  have "(bitnot32 i = 0) = (NOT (word_of_int i :: 32 word) = 0)"
    by (simp add: bitnot32_def signed_eq_0_iff)
  also have "\<dots> = ((word_of_int i :: 32 word) = - 1)"
    by (metis bit.compl_zero word_not_not)
  also have "\<dots> = (i = - 1)" using assms by (rule word_of_int_minus_one)
  also have "\<dots> = (NOT i = 0)" by (simp add: not_int_def)
  finally show ?thesis .
qed

lemma findIndexFrom_bounds:
  "findIndexFrom P k xs = - 1 \<or>
   (k \<le> findIndexFrom P k xs \<and> findIndexFrom P k xs < k + int (length xs))"
proof (induction xs arbitrary: k)
  case Nil
  show ?case by simp
next
  case (Cons x xs)
  from Cons.IH [of "k + 1"] show ?case by auto
qed

lemma findIndex_bounds: "- 1 \<le> findIndex P xs \<and> findIndex P xs < int (length xs)"
  using findIndexFrom_bounds [of P 0 xs] by (auto simp: findIndex_def)

lemma findIndex_bitnot32:
  assumes "length xs < 2 ^ 32"
  shows "(bitnot32 (findIndex P xs) = 0) = (NOT (findIndex P xs) = 0)"
proof (rule bitnot32_index)
  show "- 1 \<le> findIndex P xs" using findIndex_bounds [of P xs] by simp
  have "int (length xs) < 2 ^ 32"
    using assms by (simp add: of_nat_less_iff [symmetric] del: of_nat_less_iff)
  then show "findIndex P xs < 2 ^ 32 - 1" using findIndex_bounds [of P xs] by linarith
qed

lemma findIndexFrom_first:
  "\<forall>x\<in>set xs. \<not> P x \<Longrightarrow> P y \<Longrightarrow> findIndexFrom P k (xs @ y # ys) = k + int (length xs)"
  by (induction xs arbitrary: k) auto

lemma findIndex_first:
  "\<forall>x\<in>set xs. \<not> P x \<Longrightarrow> P y \<Longrightarrow> findIndex P (xs @ y # ys) = int (length xs)"
  by (simp add: findIndex_def findIndexFrom_first)

lemma splice_one: "splice (int (length xs)) 1 (xs @ y # ys) = xs @ ys"
proof -
  have "nat (int (length xs) + 1) = Suc (length xs)" by simp
  then show ?thesis by (simp add: splice_def Let_def)
qed

subsection \<open>Group average\<close>

text \<open>
  Claim C1. For every group, \<^verbatim>\<open>getAverageGroupScore\<close> returns 0 when the roster is
  not empty; when the roster is empty it goes on to the average by \<^verbatim>\<open>reduce\<close>, which
  divides the total 0 by the length 0, and the result of that division is NaN.
\<close>

theorem getAverageGroupScore_inverted_guard:
  "getAverageGroupScore h g =
     (if students g = [] then js_div (Finite 0) (Finite 0) else Finite 0) \<and>
   js_div (Finite 0) (Finite 0) = NaN"
  by (simp add: getAverageGroupScore_def)

theorem getAverageGroupScore_inverted_guard_witness:
  "getAverageGroupScore exampleHeap (Group_new ''Section'' 1 0) = NaN \<and>
   getAverageGroupScore exampleHeap (snd (addStudent 2 (Group_new ''Section'' 1 0))) = Finite 0"
  using getAverageGroupScore_inverted_guard [of exampleHeap "Group_new ''Section'' 1 0"]
    getAverageGroupScore_inverted_guard
      [of exampleHeap "snd (addStudent 2 (Group_new ''Section'' 1 0))"]
  by (simp add: Group_new_def addStudent_def)

subsection \<open>People by role\<close>

text \<open>
  Claim C2. For the role \<^verbatim>\<open>"student"\<close> or \<^verbatim>\<open>"teacher"\<close>, \<^verbatim>\<open>getAllPeopleByRole\<close> returns
  the people of the university whose role field is that role, in the order of insertion.
  For every other string it throws a plain \<^verbatim>\<open>Error\<close> with the message
  \<^verbatim>\<open>Unhandled role: \<close> followed by the string: it returns no list, the empty one
  included, and for no role does it throw a \<^verbatim>\<open>UniversityError\<close>.
\<close>

theorem getAllPeopleByRole_filter_or_Error:
  "getAllPeopleByRole h u r =
     (if r = ''student'' \<or> r = ''teacher''
      then Inr (filter (\<lambda>p. People_role (peopleAt h p) = r) (people u))
      else Inl (Error (''Unhandled role: '' @ r))) \<and>
   (\<forall>m. getAllPeopleByRole h u r \<noteq> Inl (UniversityError m))"
  by (simp add: getAllPeopleByRole_def Roles_student_def Roles_teacher_def assertNeverRole_def)

theorem getAllPeopleByRole_filter_or_Error_witness:
  "getAllPeopleByRole exampleHeap exampleUniversity ''teacher'' = Inr [1, 3] \<and>
   getAllPeopleByRole exampleHeap exampleUniversity ''student'' = Inr [2, 4] \<and>
   getAllPeopleByRole exampleHeap exampleUniversity ''admin'' =
     Inl (Error ''Unhandled role: admin'')"
  using getAllPeopleByRole_filter_or_Error [of exampleHeap exampleUniversity "''teacher''"]
    getAllPeopleByRole_filter_or_Error [of exampleHeap exampleUniversity "''student''"]
    getAllPeopleByRole_filter_or_Error [of exampleHeap exampleUniversity "''admin''"]
  by (simp add: exampleHeap_def exampleUniversity_def Student_new_def Teacher_new_def
      Person_new_def Roles_student_def Roles_teacher_def Person.defs Student.defs Teacher.defs)

subsection \<open>Enrolment\<close>

text \<open>
  Claim C3. For every student whose status is not \<^verbatim>\<open>"active"\<close> and every course,
  \<^verbatim>\<open>enrollCourse\<close> throws the \<^verbatim>\<open>UniversityError\<close> with the message
  \<^verbatim>\<open>Cannot enroll: Student is not in active status\<close> and leaves the student as it was,
  in particular the enrolled courses and the total of credits.
\<close>

theorem enrollCourse_not_active:
  assumes "status s \<noteq> ''active''"
  shows "enrollCourse h c s =
           (Inl (UniversityError ''Cannot enroll: Student is not in active status''), s) \<and>
         enrolledCourses (snd (enrollCourse h c s)) = enrolledCourses s \<and>
         totalCredits (academicPerformance (snd (enrollCourse h c s))) =
           totalCredits (academicPerformance s)"
  using assms by (simp add: enrollCourse_def AcademicStatus_active_def)

theorem enrollCourse_not_active_witness:
  "status (updateAcademicStatus AcademicStatus_academicLeave (fst (Student_new exampleInfo 1)))
     \<noteq> ''active'' \<and>
   fst (enrollCourse exampleHeap 7
     (updateAcademicStatus AcademicStatus_academicLeave (fst (Student_new exampleInfo 1)))) =
     Inl (UniversityError ''Cannot enroll: Student is not in active status'') \<and>
   enrolledCourses (snd (enrollCourse exampleHeap 7
     (updateAcademicStatus AcademicStatus_academicLeave (fst (Student_new exampleInfo 1))))) = [] \<and>
   totalCredits (academicPerformance (snd (enrollCourse exampleHeap 7
     (updateAcademicStatus AcademicStatus_academicLeave (fst (Student_new exampleInfo 1)))))) =
     Finite 0"
proof -
  have st: "status (updateAcademicStatus AcademicStatus_academicLeave
              (fst (Student_new exampleInfo 1))) \<noteq> ''active''"
    by (simp add: updateAcademicStatus_def AcademicStatus_academicLeave_def)
  show ?thesis
    using st enrollCourse_not_active [OF st, of exampleHeap 7]
    by (simp add: updateAcademicStatus_def Student_new_def Person_new_def
        Student.defs Person.defs)
qed

text \<open>
  Claim C4. For every active student and every course, \<^verbatim>\<open>enrollCourse\<close> returns, having
  appended the course to the enrolled courses, whether or not the course was enrolled
  before, and having replaced the total of credits by the double sum of the total and
  the credits of the course: their exact sum rounded to the nearest double. The total
  grows by exactly the credits when the total and the credits are integers and the
  magnitude of their sum is at most \<open>2^53\<close>. With a course of 5 credits, a student
  fresh from the constructor has the total 0, then 5 after one enrolment and 10 after a
  second enrolment in the same course, which is then listed twice.
\<close>

theorem enrollCourse_active:
  "(status s = ''active'' \<longrightarrow>
      enrollCourse h c s =
        (Inr (), s\<lparr>enrolledCourses := enrolledCourses s @ [c],
                   academicPerformance := (academicPerformance s)\<lparr>totalCredits :=
                      js_add (totalCredits (academicPerformance s))
                        (credits (courseAt h c))\<rparr>\<rparr>)) \<and>
   (status s = ''active'' \<and> totalCredits (academicPerformance s) = Finite (of_int a) \<and>
    credits (courseAt h c) = Finite (of_int b) \<and> \<bar>a + b\<bar> \<le> 2 ^ 53 \<longrightarrow>
      totalCredits (academicPerformance (snd (enrollCourse h c s))) = Finite (of_int (a + b))) \<and>
   (credits (courseAt h c) = Finite 5 \<longrightarrow>
      (let s0 = fst (Student_new info n);
           s1 = snd (enrollCourse h c s0);
           s2 = snd (enrollCourse h c s1)
       in totalCredits (academicPerformance s0) = Finite 0 \<and>
          fst (enrollCourse h c s0) = Inr () \<and>
          totalCredits (academicPerformance s1) = Finite 5 \<and>
          fst (enrollCourse h c s1) = Inr () \<and>
          totalCredits (academicPerformance s2) = Finite 10 \<and>
          enrolledCourses s2 = [c, c]))"
proof (intro conjI impI)
  assume "status s = ''active''"
  then show "enrollCourse h c s =
        (Inr (), s\<lparr>enrolledCourses := enrolledCourses s @ [c],
                   academicPerformance := (academicPerformance s)\<lparr>totalCredits :=
                      js_add (totalCredits (academicPerformance s))
                        (credits (courseAt h c))\<rparr>\<rparr>)"
    by (simp add: enrollCourse_def Let_def AcademicStatus_active_def)
next
  assume a: "status s = ''active'' \<and> totalCredits (academicPerformance s) = Finite (of_int a) \<and>
    credits (courseAt h c) = Finite (of_int b) \<and> \<bar>a + b\<bar> \<le> 2 ^ 53"
  then have "js_add (Finite (of_int a)) (Finite (of_int b)) = Finite (of_int (a + b))"
    by (intro js_add_of_int) simp
  with a show "totalCredits (academicPerformance (snd (enrollCourse h c s))) =
      Finite (of_int (a + b))"
    by (simp add: enrollCourse_def Let_def AcademicStatus_active_def)
next
  assume "credits (courseAt h c) = Finite 5"
  with js_add_0_5 js_add_5_5 show "let s0 = fst (Student_new info n);
           s1 = snd (enrollCourse h c s0);
           s2 = snd (enrollCourse h c s1)
       in totalCredits (academicPerformance s0) = Finite 0 \<and>
          fst (enrollCourse h c s0) = Inr () \<and>
          totalCredits (academicPerformance s1) = Finite 5 \<and>
          fst (enrollCourse h c s1) = Inr () \<and>
          totalCredits (academicPerformance s2) = Finite 10 \<and>
          enrolledCourses s2 = [c, c]"
    by (simp add: enrollCourse_def Let_def Student_new_def Person_new_def
        AcademicStatus_active_def Student.defs Person.defs)
qed

theorem enrollCourse_active_witness:
  "status (fst (Student_new exampleInfo 1)) = ''active'' \<and>
   credits (courseAt exampleHeap 7) = Finite 5 \<and>
   totalCredits (academicPerformance (fst (Student_new exampleInfo 1))) = Finite (of_int 0) \<and>
   credits (courseAt exampleHeap 7) = Finite (of_int 5) \<and> \<bar>0 + 5 :: int\<bar> \<le> 2 ^ 53 \<and>
   totalCredits (academicPerformance
     (snd (enrollCourse exampleHeap 7 (fst (Student_new exampleInfo 1))))) = Finite 5 \<and>
   totalCredits (academicPerformance
     (snd (enrollCourse exampleHeap 7
        (snd (enrollCourse exampleHeap 7 (fst (Student_new exampleInfo 1))))))) = Finite 10 \<and>
   enrolledCourses
     (snd (enrollCourse exampleHeap 7
        (snd (enrollCourse exampleHeap 7 (fst (Student_new exampleInfo 1)))))) = [7, 7]"
proof -
  have a: "status (fst (Student_new exampleInfo 1)) = ''active''"
    by (simp add: Student_new_def Person_new_def AcademicStatus_active_def
        Student.defs Person.defs)
  have b: "credits (courseAt exampleHeap 7) = Finite 5"
    by (simp add: exampleHeap_def)
  have t: "totalCredits (academicPerformance (fst (Student_new exampleInfo 1))) = Finite 0"
    by (simp add: Student_new_def Person_new_def Student.defs Person.defs)
  from enrollCourse_active [of "fst (Student_new exampleInfo 1)" exampleHeap 7 0 5 exampleInfo 1]
  have "let s0 = fst (Student_new exampleInfo 1);
           s1 = snd (enrollCourse exampleHeap 7 s0);
           s2 = snd (enrollCourse exampleHeap 7 s1)
       in totalCredits (academicPerformance s0) = Finite 0 \<and>
          fst (enrollCourse exampleHeap 7 s0) = Inr () \<and>
          totalCredits (academicPerformance s1) = Finite 5 \<and>
          fst (enrollCourse exampleHeap 7 s1) = Inr () \<and>
          totalCredits (academicPerformance s2) = Finite 10 \<and>
          enrolledCourses s2 = [7, 7]"
    using b by blast
  then show ?thesis using a b t by (simp add: Let_def)
qed

text \<open>
  Without the bound on the sum, claim C4 fails: a student fresh from the constructor
  who enrols in a course of \<open>2^53\<close> credits has the total \<open>2^53\<close>, and enrolling then in
  a course of 1 credit returns and leaves the total at \<open>2^53\<close>, the double nearest to
  \<open>2^53 + 1\<close>.
\<close>

theorem enrollCourse_active_counterexample:
  "status (snd (enrollCourse largeCreditsHeap 0 (fst (Student_new exampleInfo 1)))) =
     ''active'' \<and>
   totalCredits (academicPerformance
     (snd (enrollCourse largeCreditsHeap 0 (fst (Student_new exampleInfo 1))))) =
     Finite (2 ^ 53) \<and>
   credits (courseAt largeCreditsHeap 1) = Finite 1 \<and>
   fst (enrollCourse largeCreditsHeap 1
     (snd (enrollCourse largeCreditsHeap 0 (fst (Student_new exampleInfo 1))))) = Inr () \<and>
   totalCredits (academicPerformance
     (snd (enrollCourse largeCreditsHeap 1
        (snd (enrollCourse largeCreditsHeap 0 (fst (Student_new exampleInfo 1))))))) =
     Finite (2 ^ 53) \<and>
   Finite (2 ^ 53) \<noteq> Finite (2 ^ 53 + 1)"
  using js_add_0_large js_add_large_1
  by (simp add: enrollCourse_def Let_def largeCreditsHeap_def Student_new_def Person_new_def
      AcademicStatus_active_def Student.defs Person.defs)

subsection \<open>Rosters\<close>

text \<open>
  Claim C5. \<^verbatim>\<open>addStudent\<close> throws the \<^verbatim>\<open>UniversityError\<close> with the message
  \<^verbatim>\<open>Student is already in the group\<close> and leaves the roster as it was when the roster
  holds that very student object (the same address); otherwise it appends the student.
  Adding one student twice to a group fresh from the constructor succeeds the first
  time and fails the second, and the roster has length 1.
\<close>

theorem addStudent_identity:
  "addStudent s g =
     (if s \<in> set (students g)
      then (Inl (UniversityError ''Student is already in the group''), g)
      else (Inr (), g\<lparr>students := students g @ [s]\<rparr>)) \<and>
   (let g1 = snd (addStudent s (Group_new n c t));
        g2 = snd (addStudent s g1)
    in fst (addStudent s (Group_new n c t)) = Inr () \<and>
       fst (addStudent s g1) = Inl (UniversityError ''Student is already in the group'') \<and>
       students g2 = [s] \<and> length (students g2) = 1)"
  by (simp add: addStudent_def Group_new_def Let_def)

theorem addStudent_identity_witness:
  "fst (addStudent 2 (Group_new ''Section'' 1 0)) = Inr () \<and>
   addStudent 2 (snd (addStudent 2 (Group_new ''Section'' 1 0))) =
     (Inl (UniversityError ''Student is already in the group''),
      \<lparr>Group.name = ''Section'', course = 1, teacher = 0, students = [2]\<rparr>) \<and>
   students (snd (addStudent 4 (snd (addStudent 2 (Group_new ''Section'' 1 0))))) = [2, 4]"
  using addStudent_identity [of 2 "Group_new ''Section'' 1 0" "''Section''" 1 0]
    addStudent_identity [of 2 "snd (addStudent 2 (Group_new ''Section'' 1 0))" "''Section''" 1 0]
    addStudent_identity [of 4 "snd (addStudent 2 (Group_new ''Section'' 1 0))" "''Section''" 1 0]
  by (simp add: addStudent_def Group_new_def Let_def)

text \<open>
  Claim C10. When no student of the roster has the identifier of the student \<open>s\<close>,
  \<^verbatim>\<open>addStudent\<close> of \<open>s\<close> returns with \<open>s\<close> appended, and \<^verbatim>\<open>removeStudentById\<close> of the
  identifier of \<open>s\<close> on the result returns and leaves the group, its roster included,
  as it was before the two calls.
\<close>

theorem addStudent_removeStudentById_roundtrip:
  assumes "\<forall>r\<in>set (students g). id' (studentAt h r) \<noteq> id' (studentAt h s)"
  shows "addStudent s g = (Inr (), g\<lparr>students := students g @ [s]\<rparr>) \<and>
         removeStudentById h (id' (studentAt h s)) (snd (addStudent s g)) = (Inr (), g)"
proof -
  have notin: "s \<notin> set (students g)"
    using assms by auto
  then have add: "addStudent s g = (Inr (), g\<lparr>students := students g @ [s]\<rparr>)"
    by (simp add: addStudent_def)
  have idx: "findIndex (\<lambda>student. id' (studentAt h student) = id' (studentAt h s))
               (students g @ [s]) = int (length (students g))"
    using assms by (intro findIndex_first) simp_all
  have nz: "NOT (int (length (students g))) \<noteq> 0"
    by (simp add: not_int_def)
  have spl: "splice (int (length (students g))) 1 (students g @ [s]) = students g"
    using splice_one [of "students g" s "[]"] by simp
  have "removeStudentById h (id' (studentAt h s)) (g\<lparr>students := students g @ [s]\<rparr>) = (Inr (), g)"
    by (simp add: removeStudentById_def idx nz spl Let_def)
  with add show ?thesis by simp
qed

theorem addStudent_removeStudentById_roundtrip_witness:
  "students \<lparr>Group.name = ''Section'', course = 1, teacher = 0, students = [1, 2]\<rparr> = [1, 2] \<and>
   id' (studentAt exampleHeap 1) \<noteq> id' (studentAt exampleHeap 3) \<and>
   id' (studentAt exampleHeap 2) \<noteq> id' (studentAt exampleHeap 3) \<and>
   students (snd (addStudent 3
      \<lparr>Group.name = ''Section'', course = 1, teacher = 0, students = [1, 2]\<rparr>)) = [1, 2, 3] \<and>
   removeStudentById exampleHeap 3
     (snd (addStudent 3
        \<lparr>Group.name = ''Section'', course = 1, teacher = 0, students = [1, 2]\<rparr>)) =
     (Inr (), \<lparr>Group.name = ''Section'', course = 1, teacher = 0, students = [1, 2]\<rparr>)"
proof -
  have ids: "\<And>a. id' (studentAt exampleHeap a) = int a"
    by (simp add: exampleHeap_def Student_new_def Person_new_def Person.defs Student.defs)
  have hyp: "\<forall>r\<in>set (students \<lparr>Group.name = ''Section'', course = 1, teacher = 0, students = [1, 2]\<rparr>).
      id' (studentAt exampleHeap r) \<noteq> id' (studentAt exampleHeap 3)"
    by (simp add: ids)
  show ?thesis
    using hyp addStudent_removeStudentById_roundtrip [OF hyp]
    by (simp add: ids addStudent_def)
qed

subsection \<open>Identifiers\<close>

lemma construct_id: "People_id (fst (construct c n)) = n"
  by (cases c)
    (simp_all add: Person_new_def Teacher_new_def Student_new_def
      Person.defs Teacher.defs Student.defs)

lemma construct_next: "snd (construct c n) = js_increment n"
  by (cases c) (simp_all add: Person_new_def Teacher_new_def Student_new_def)

lemma constructAll_saturating:
  assumes "0 \<le> n" and "n \<le> 2 ^ 53"
  shows "map People_id (fst (constructAll cs n)) =
           map (\<lambda>i. min (n + int i) (2 ^ 53)) [0..<length cs] \<and>
         snd (constructAll cs n) = min (n + int (length cs)) (2 ^ 53)"
  using assms
proof (induction cs arbitrary: n)
  case Nil
  then show ?case by simp
next
  case (Cons c cs)
  let ?n1 = "min (n + 1) (2 ^ 53 :: int)"
  have n1: "js_increment n = ?n1" using Cons.prems by (rule js_increment_min)
  have r: "0 \<le> ?n1" "?n1 \<le> 2 ^ 53" using Cons.prems by simp_all
  note ih = Cons.IH [OF r]
  have hd: "min (n + int 0) (2 ^ 53) = n" using Cons.prems by simp
  have tl: "map (\<lambda>i. min (?n1 + int i) (2 ^ 53)) [0..<length cs] =
            map (\<lambda>i. min (n + int (Suc i)) (2 ^ 53)) [0..<length cs]"
    by (rule map_cong) (auto simp: min_def)
  have "map People_id (fst (constructAll (c # cs) n)) =
        n # map People_id (fst (constructAll cs ?n1))"
    by (simp add: split_beta construct_id construct_next n1)
  also have "\<dots> = n # map (\<lambda>i. min (n + int (Suc i)) (2 ^ 53)) [0..<length cs]"
    using ih tl by simp
  also have "\<dots> = map (\<lambda>i. min (n + int i) (2 ^ 53)) (0 # map Suc [0..<length cs])"
    using hd by (simp add: comp_def)
  also have "\<dots> = map (\<lambda>i. min (n + int i) (2 ^ 53)) [0..<length (c # cs)]"
    by (simp only: map_Suc_upt length_Cons upt_conv_Cons [of 0, symmetric] zero_less_Suc)
  finally have ids: "map People_id (fst (constructAll (c # cs) n)) =
    map (\<lambda>i. min (n + int i) (2 ^ 53)) [0..<length (c # cs)]" .
  have "snd (constructAll (c # cs) n) = snd (constructAll cs ?n1)"
    by (simp add: split_beta construct_next n1)
  also have "\<dots> = min (?n1 + int (length cs)) (2 ^ 53)" using ih by simp
  also have "\<dots> = min (n + int (length (c # cs))) (2 ^ 53)" by (auto simp: min_def)
  finally show ?case using ids by simp
qed

lemma map_int_upt: "map (\<lambda>i. 1 + int i) [0..<k] = [1..int k]"
proof (induction k)
  case 0
  show ?case by simp
next
  case (Suc k)
  have "[1..int (Suc k)] = [1..int k] @ [int k + 1]"
    using upto_rec2 [of 1 "int k + 1"] by (simp add: add.commute)
  with Suc show ?case by (simp add: add.commute)
qed

lemma constructAll_below_limit:
  assumes "length cs \<le> 2 ^ 53"
  shows "map People_id (fst (constructAll cs 1)) = [1..int (length cs)]"
proof -
  have "map (\<lambda>i. min (1 + int i) (2 ^ 53)) [0..<length cs] =
        map (\<lambda>i. 1 + int i) [0..<length cs]"
  proof (rule map_cong [OF refl])
    fix i assume "i \<in> set [0..<length cs]"
    then have "i < length cs" by simp
    with assms have "i < 2 ^ 53" by simp
    then have "int i < 2 ^ 53" by (simp add: of_nat_less_iff [symmetric] del: of_nat_less_iff)
    then show "min (1 + int i) (2 ^ 53) = 1 + int i" by simp
  qed
  with constructAll_saturating [of 1 cs] show ?thesis by (simp add: map_int_upt)
qed

lemma constructAll_repeats:
  "\<not> distinct (map People_id (fst (constructAll (replicate (2 ^ 53 + 1) c) 1)))"
proof -
  define ids where "ids = map People_id (fst (constructAll (replicate (2 ^ 53 + 1) c) 1))"
  have eq: "ids = map (\<lambda>i. min (1 + int i) (2 ^ 53)) [0..<2 ^ 53 + 1]"
    unfolding ids_def using constructAll_saturating [of 1 "replicate (2 ^ 53 + 1) c"] by simp
  have a: "2 ^ 53 - 1 < length ids" and b: "2 ^ 53 < length ids"
    unfolding eq by simp_all
  have i1: "ids ! (2 ^ 53 - 1) = 2 ^ 53" unfolding eq by simp
  have i2: "ids ! (2 ^ 53) = 2 ^ 53" unfolding eq by simp
  have "\<not> distinct ids"
  proof
    assume "distinct ids"
    from nth_eq_iff_index_eq [OF this a b] i1 i2 show False by simp
  qed
  then show ?thesis unfolding ids_def .
qed

text \<open>
  Claim C6. The objects made by a sequence of constructions of Person, Teacher and
  Student, started with the initial value of \<^verbatim>\<open>Person.nextId\<close>, have the identifiers
  1, 2, ... in the order of construction, whatever their classes, up to \<open>2^53\<close>, which
  is the identifier of every later object: the counter grows by 1 with each
  construction until it is \<open>2^53\<close> and stays there, and nothing in the program lowers it.
  So over any sequence of at most \<open>2^53\<close> constructions the identifiers increase
  strictly from 1 and no two objects share one.
\<close>

theorem constructAll_identifiers:
  "map People_id (fst (constructAll cs Person_nextId_initial)) =
     map (\<lambda>i. min (1 + int i) (2 ^ 53)) [0..<length cs] \<and>
   snd (constructAll cs Person_nextId_initial) = min (1 + int (length cs)) (2 ^ 53) \<and>
   (length cs \<le> 2 ^ 53 \<longrightarrow>
      (let ids = map People_id (fst (constructAll cs Person_nextId_initial))
       in ids = [1..int (length cs)] \<and> sorted_wrt (<) ids \<and> distinct ids))"
proof -
  have sat: "map People_id (fst (constructAll cs 1)) =
               map (\<lambda>i. min (1 + int i) (2 ^ 53)) [0..<length cs] \<and>
             snd (constructAll cs 1) = min (1 + int (length cs)) (2 ^ 53)"
    by (rule constructAll_saturating) simp_all
  have "length cs \<le> 2 ^ 53 \<Longrightarrow>
        map People_id (fst (constructAll cs 1)) = [1..int (length cs)]"
    by (rule constructAll_below_limit)
  with sat show ?thesis by (simp add: Person_nextId_initial_def Let_def)
qed

theorem constructAll_identifiers_witness:
  "length [NewStudent exampleInfo, NewTeacher exampleInfo [''Algebra''],
       NewPerson exampleInfo ''student'', NewStudent exampleInfo] \<le> (2 ^ 53 :: nat) \<and>
   map People_id (fst (constructAll
      [NewStudent exampleInfo, NewTeacher exampleInfo [''Algebra''],
       NewPerson exampleInfo ''student'', NewStudent exampleInfo] Person_nextId_initial)) =
     [1, 2, 3, 4]"
  using constructAll_identifiers [of "[NewStudent exampleInfo, NewTeacher exampleInfo [''Algebra''],
       NewPerson exampleInfo ''student'', NewStudent exampleInfo]"]
  by (simp add: Let_def upto_rec1)

text \<open>
  Without the bound on the number of constructions, claim C6 fails: over \<open>2^53 + 1\<close>
  constructions the identifiers are not distinct, since the last two objects both have
  the identifier \<open>2^53\<close>.
\<close>

theorem constructAll_identifiers_counterexample:
  "length (replicate (2 ^ 53 + 1) (NewStudent exampleInfo)) = 2 ^ 53 + 1 \<and>
   \<not> distinct (map People_id
      (fst (constructAll (replicate (2 ^ 53 + 1) (NewStudent exampleInfo))
         Person_nextId_initial)))"
  using constructAll_repeats [of "NewStudent exampleInfo"]
  by (simp add: Person_nextId_initial_def)

subsection \<open>Age\<close>

text \<open>
  Claim C7. For every person and every current date, \<^verbatim>\<open>age\<close> is the current year minus
  the year of birth, less one exactly when the pair (current month, current day) is
  below the pair (month of birth, day of birth) in the lexicographic order. A birth on
  15 June 2000 gives 23 on 14 June 2024 and 24 on 15 June 2024. The getter is total,
  and a date of birth that is not before the current date gives an age of zero or
  less.
\<close>

theorem age_calendar_difference:
  "age today p =
     getFullYear today - getFullYear (Person.birthDay p) -
       (if (getMonth today, getDate today) <
           (getMonth (Person.birthDay p), getDate (Person.birthDay p))
        then 1 else 0) \<and>
   (Person.birthDay p = \<lparr>getFullYear = 2000, getMonth = 5, getDate = 15\<rparr> \<longrightarrow>
      age \<lparr>getFullYear = 2024, getMonth = 5, getDate = 14\<rparr> p = 23 \<and>
      age \<lparr>getFullYear = 2024, getMonth = 5, getDate = 15\<rparr> p = 24) \<and>
   ((getFullYear today, getMonth today, getDate today) \<le>
      (getFullYear (Person.birthDay p), getMonth (Person.birthDay p),
       getDate (Person.birthDay p)) \<longrightarrow>
      age today p \<le> 0)"
  by (auto simp: age_def Let_def)

theorem age_calendar_difference_witness:
  "Person.birthDay (fst (Student_new exampleInfo 1)) =
     \<lparr>getFullYear = 2000, getMonth = 5, getDate = 15\<rparr> \<and>
   age \<lparr>getFullYear = 2024, getMonth = 5, getDate = 14\<rparr> (fst (Student_new exampleInfo 1)) = 23 \<and>
   age \<lparr>getFullYear = 2024, getMonth = 5, getDate = 15\<rparr> (fst (Student_new exampleInfo 1)) = 24 \<and>
   (1999 :: int, 11 :: int, 31 :: int) \<le> (2000, 5, 15) \<and>
   age \<lparr>getFullYear = 1999, getMonth = 11, getDate = 31\<rparr> (fst (Student_new exampleInfo 1)) = - 1 \<and>
   age \<lparr>getFullYear = 2000, getMonth = 5, getDate = 15\<rparr> (fst (Student_new exampleInfo 1)) = 0"
proof -
  have b: "Person.birthDay (fst (Student_new exampleInfo 1)) =
     \<lparr>getFullYear = 2000, getMonth = 5, getDate = 15\<rparr>"
    by (simp add: Student_new_def Person_new_def exampleInfo_def Person.defs Student.defs)
  show ?thesis
    using b
      age_calendar_difference [of "\<lparr>getFullYear = 1999, getMonth = 11, getDate = 31\<rparr>"
        "fst (Student_new exampleInfo 1)"]
      age_calendar_difference [of "\<lparr>getFullYear = 2000, getMonth = 5, getDate = 15\<rparr>"
        "fst (Student_new exampleInfo 1)"]
    by simp
qed

subsection \<open>University\<close>

text \<open>
  Claim C8. \<^verbatim>\<open>findGroupByCourse\<close> returns \<^verbatim>\<open>undefined\<close> exactly when no group of the
  university refers to the given course object, and returns a group exactly when that
  group stands at a position of the list of groups, refers to the given course object,
  and no group at an earlier position does.
\<close>

theorem findGroupByCourse_first:
  "(findGroupByCourse h u c = None \<longleftrightarrow>
      (\<forall>g\<in>set (groups u). course (groupAt h g) \<noteq> c)) \<and>
   (findGroupByCourse h u c = Some g \<longleftrightarrow>
      (\<exists>i<length (groups u). groups u ! i = g \<and> course (groupAt h g) = c \<and>
         (\<forall>j<i. course (groupAt h (groups u ! j)) \<noteq> c)))"
  unfolding findGroupByCourse_def find_None_iff find_Some_iff by auto

theorem findGroupByCourse_first_witness:
  "findGroupByCourse exampleHeap exampleUniversity 2 = Some 4 \<and>
   groups exampleUniversity ! 1 = 4 \<and> groups exampleUniversity ! 2 = 5 \<and>
   course (groupAt exampleHeap 4) = 2 \<and> course (groupAt exampleHeap 5) = 2 \<and>
   course (groupAt exampleHeap (groups exampleUniversity ! 0)) \<noteq> 2 \<and>
   findGroupByCourse exampleHeap exampleUniversity 7 = None"
  using findGroupByCourse_first [of exampleHeap exampleUniversity 2 4]
    findGroupByCourse_first [of exampleHeap exampleUniversity 7 0]
  by (simp add: findGroupByCourse_def exampleHeap_def exampleUniversity_def Group_new_def)

text \<open>
  Claim C9. Each of \<^verbatim>\<open>addCourse\<close>, \<^verbatim>\<open>addGroup\<close> and \<^verbatim>\<open>addPerson\<close> appends its argument
  to its own collection (courses, groups, people) and leaves the two other collections
  and the name of the university as they were.
\<close>

theorem add_frame:
  "University.courses (addCourse x u) = University.courses u @ [x] \<and>
   groups (addCourse x u) = groups u \<and>
   people (addCourse x u) = people u \<and>
   University.name (addCourse x u) = University.name u \<and>
   groups (addGroup x u) = groups u @ [x] \<and>
   University.courses (addGroup x u) = University.courses u \<and>
   people (addGroup x u) = people u \<and>
   University.name (addGroup x u) = University.name u \<and>
   people (addPerson x u) = people u @ [x] \<and>
   University.courses (addPerson x u) = University.courses u \<and>
   groups (addPerson x u) = groups u \<and>
   University.name (addPerson x u) = University.name u"
  by (simp add: addCourse_def addGroup_def addPerson_def)

theorem add_frame_witness:
  "addCourse 9 exampleUniversity =
     \<lparr>University.name = ''University'', courses = [1, 2, 3, 9], groups = [2, 4, 5, 6],
      people = [1, 2, 3, 4]\<rparr> \<and>
   addGroup 9 exampleUniversity =
     \<lparr>University.name = ''University'', courses = [1, 2, 3], groups = [2, 4, 5, 6, 9],
      people = [1, 2, 3, 4]\<rparr> \<and>
   addPerson 9 exampleUniversity =
     \<lparr>University.name = ''University'', courses = [1, 2, 3], groups = [2, 4, 5, 6],
      people = [1, 2, 3, 4, 9]\<rparr>"
  using add_frame [of 9 exampleUniversity]
  by (simp add: addCourse_def addGroup_def addPerson_def exampleUniversity_def)

end
